theory Spec2Isabelle
  imports Main "HOL-Library.Sublist" "HOL-Library.AList"
begin

section \<open>Python values, exceptions and strings\<close>

text \<open>
  A dataset row is a Python dict from field names to values. The values the loaders touch
  are integers (labels), strings, lists (paragraphs, answers) and nested dicts (the
  summary of a wiki_cat_sum row). A dict is an association list in insertion order.
\<close>

datatype val =
    VInt int
  | VStr string
  | VList "val list"
  | VDict "(string \<times> val) list"

type_synonym pydict = "(string \<times> val) list"

text \<open>
  Every exception the code can raise is a value; a computation that may raise returns
  \<open>error + 'a\<close>, with \<open>Inl\<close> the exception. \<open>KeyError\<close> carries the missing key.
\<close>

datatype error =
    KeyError val
  | TypeError
  | IndexError
  | ValueError
  | AttributeError string
  | NameError string

definition ebind :: "error + 'a \<Rightarrow> ('a \<Rightarrow> error + 'b) \<Rightarrow> error + 'b" where
  "ebind m f = (case m of Inl e \<Rightarrow> Inl e | Inr x \<Rightarrow> f x)"

text \<open>A loop or comprehension whose body may raise: it stops at the first exception.\<close>

fun mapM :: "('a \<Rightarrow> error + 'b) \<Rightarrow> 'a list \<Rightarrow> error + 'b list" where
  "mapM f [] = Inr []"
| "mapM f (x # xs) = ebind (f x) (\<lambda>y. ebind (mapM f xs) (\<lambda>ys. Inr (y # ys)))"

text \<open>\<open>d[k]\<close> on a dict.\<close>

definition getitem :: "pydict \<Rightarrow> string \<Rightarrow> error + val" where
  "getitem d k = (case map_of d k of None \<Rightarrow> Inl (KeyError (VStr k)) | Some v \<Rightarrow> Inr v)"

text \<open>\<open>s + v\<close> with \<open>s\<close> a string: a \<open>TypeError\<close> unless \<open>v\<close> is a string too.\<close>

definition str_add :: "string \<Rightarrow> val \<Rightarrow> error + string" where
  "str_add s v = (case v of VStr t \<Rightarrow> Inr (s @ t) | _ \<Rightarrow> Inl TypeError)"

text \<open>\<open>sep.join(xs)\<close> on a list of strings.\<close>

fun join :: "string \<Rightarrow> string list \<Rightarrow> string" where
  "join sep [] = []"
| "join sep [x] = x"
| "join sep (x # y # ys) = x @ sep @ join sep (y # ys)"

definition as_str :: "val \<Rightarrow> error + string" where
  "as_str v = (case v of VStr s \<Rightarrow> Inr s | _ \<Rightarrow> Inl TypeError)"

text \<open>
  \<open>sep.join(v)\<close> on a value: a list is joined when all its items are strings, a string
  is iterated character by character, a dict by its keys; an integer is not iterable.
\<close>

definition str_join :: "string \<Rightarrow> val \<Rightarrow> error + string" where
  "str_join sep v =
     (case v of
        VList xs \<Rightarrow> ebind (mapM as_str xs) (\<lambda>ss. Inr (join sep ss))
      | VStr s \<Rightarrow> Inr (join sep (map (\<lambda>c. [c]) s))
      | VDict d \<Rightarrow> Inr (join sep (map fst d))
      | VInt i \<Rightarrow> Inl TypeError)"

text \<open>\<open>v["key"]\<close> and \<open>v[0]\<close> on a value.\<close>

definition subscript_key :: "val \<Rightarrow> string \<Rightarrow> error + val" where
  "subscript_key v k = (case v of VDict d \<Rightarrow> getitem d k | _ \<Rightarrow> Inl TypeError)"

definition subscript_0 :: "val \<Rightarrow> error + val" where
  "subscript_0 v =
     (case v of
        VList xs \<Rightarrow> (case xs of [] \<Rightarrow> Inl IndexError | x # _ \<Rightarrow> Inr x)
      | VStr s \<Rightarrow> (case s of [] \<Rightarrow> Inl IndexError | c # _ \<Rightarrow> Inr (VStr [c]))
      | VDict d \<Rightarrow> Inl (KeyError (VInt 0))
      | VInt i \<Rightarrow> Inl TypeError)"

text \<open>
  \<open>s.split(sep)\<close>: the string is scanned from the left, \<open>cur\<close> collects the characters
  since the last cut, and every occurrence of the separator cuts and is skipped. An
  empty separator raises \<open>ValueError\<close>.
\<close>

function split_from :: "string \<Rightarrow> string \<Rightarrow> string \<Rightarrow> string list" where
  "split_from sep cur [] = [cur]"
| "split_from sep cur (c # cs) =
     (if sep \<noteq> [] \<and> prefix sep (c # cs)
      then cur # split_from sep [] (drop (length sep) (c # cs))
      else split_from sep (cur @ [c]) cs)"
  by pat_completeness auto
termination
  by (relation "measure (\<lambda>(sep, cur, s). length s)") auto

definition split :: "string \<Rightarrow> string \<Rightarrow> error + string list" where
  "split s sep = (if sep = [] then Inl ValueError else Inr (split_from sep [] s))"

text \<open>\<open>xs[i]\<close> on a list.\<close>

definition index :: "'a list \<Rightarrow> nat \<Rightarrow> error + 'a" where
  "index xs i = (if i < length xs then Inr (xs ! i) else Inl IndexError)"

section \<open>The dataset provider\<close>

text \<open>
  The \<open>datasets\<close> library is outside the repository. A \<open>Dataset\<close> is the list of its
  rows, a \<open>DatasetDict\<close> holds the three splits, and \<open>load_dataset\<close> is a parameter
  of the model: it maps a dataset name and an optional configuration name to a
  \<open>DatasetDict\<close>, or raises.

  \<open>Dataset.map f\<close> calls \<open>f\<close> on every row and writes the returned fields into the
  row; \<open>DatasetDict.map\<close> does so for each split. \<open>select\<close> picks rows by index and
  a column access returns that field of every row, in order. A table is its rows here:
  a column of a table with no rows is the empty list.
\<close>

record DatasetDict =
  dd_train :: "pydict list"
  dd_validation :: "pydict list"
  dd_test :: "pydict list"

type_synonym provider = "string \<Rightarrow> string option \<Rightarrow> error + DatasetDict"

definition dict_merge :: "pydict \<Rightarrow> pydict \<Rightarrow> pydict" where
  "dict_merge d new = foldl (\<lambda>acc (k, v). AList.update k v acc) d new"

definition Dataset_map :: "(pydict \<Rightarrow> error + pydict) \<Rightarrow> pydict list \<Rightarrow> error + pydict list" where
  "Dataset_map f ds = mapM (\<lambda>example. ebind (f example) (\<lambda>new. Inr (dict_merge example new))) ds"

definition DatasetDict_map :: "(pydict \<Rightarrow> error + pydict) \<Rightarrow> DatasetDict \<Rightarrow> error + DatasetDict" where
  "DatasetDict_map f dd =
     ebind (Dataset_map f (dd_train dd)) (\<lambda>tr.
     ebind (Dataset_map f (dd_validation dd)) (\<lambda>va.
     ebind (Dataset_map f (dd_test dd)) (\<lambda>te.
     Inr \<lparr>dd_train = tr, dd_validation = va, dd_test = te\<rparr>)))"

definition select :: "pydict list \<Rightarrow> nat list \<Rightarrow> error + pydict list" where
  "select ds idxs =
     (if list_all (\<lambda>i. i < length ds) idxs then Inr (map (\<lambda>i. ds ! i) idxs) else Inl IndexError)"

definition column :: "pydict list \<Rightarrow> string \<Rightarrow> error + val list" where
  "column ds name = mapM (\<lambda>row. getitem row name) ds"

section \<open>The sampler\<close>

text \<open>
  Modelled from the spec: the sampler \<open>np.random.default_rng(seed).choice(n, k,
  replace=False)\<close> is numpy's and not part of the repository. By the spec's contract
  it fails with a \<open>ValueError\<close> when \<open>k\<close> exceeds the pool size, and otherwise
  returns the \<open>k\<close> indices the generator seeded with \<open>seed\<close> selects. The selection
  itself is the parameter \<open>gen\<close>; \<open>valid_gen\<close> states the rest of the contract:
  \<open>k\<close> distinct indices below \<open>n\<close>.
\<close>

definition choice :: "(int \<Rightarrow> nat \<Rightarrow> nat \<Rightarrow> nat list) \<Rightarrow> int \<Rightarrow> nat \<Rightarrow> nat \<Rightarrow> error + nat list" where
  "choice gen seed n k = (if n < k then Inl ValueError else Inr (gen seed n k))"

definition valid_gen :: "(int \<Rightarrow> nat \<Rightarrow> nat \<Rightarrow> nat list) \<Rightarrow> bool" where
  "valid_gen gen =
     (\<forall>seed n k. k \<le> n \<longrightarrow>
        length (gen seed n k) = k \<and> distinct (gen seed n k) \<and> list_all (\<lambda>i. i < n) (gen seed n k))"

section \<open>The dataset adapters\<close>

text \<open>
  The five \<open>DataLoader\<close> subclasses have the same methods and differ in their
  constants and in the static functions \<open>_prompt\<close> and \<open>_eval_prompt\<close>. The class of an
  object is the field \<open>cls\<close>; a method looks its constants up there.
\<close>

datatype loader_class =
    RottenTomatoesDataLoader
  | GigawordDataLoader
  | DailymailDataLoader
  | WikicatDataLoader
  | TweetQADataLoader

record DataLoader =
  cls :: loader_class
  dataset_name :: string
  dataset_cache :: "DatasetDict option"
  train :: "pydict list"
  test :: "pydict list"

text \<open>
  \<open>dataset_cache\<close> is the attribute \<open>_dataset\<close>. The property \<open>dataset\<close> loads the
  dataset on the first access and keeps it; \<open>train\<close> and \<open>test\<close> do not exist before
  \<open>__init__\<close> assigns them, and an \<open>__init__\<close> that raises leaves no object.
\<close>

definition DataLoader_new :: "loader_class \<Rightarrow> string \<Rightarrow> DataLoader" where
  "DataLoader_new c name =
     \<lparr>cls = c, dataset_name = name, dataset_cache = None, train = [], test = []\<rparr>"

definition dataset :: "provider \<Rightarrow> DataLoader \<Rightarrow> error + (DatasetDict \<times> DataLoader)" where
  "dataset load_dataset self =
     (case dataset_cache self of
        None \<Rightarrow>
          ebind (if dataset_name self = ''cnn_dailymail''
                 then load_dataset (dataset_name self) (Some ''3.0.0'')
                 else load_dataset (dataset_name self) None)
            (\<lambda>dd. Inr (dd, self\<lparr>dataset_cache := Some dd\<rparr>))
      | Some dd \<Rightarrow> Inr (dd, self))"

definition PROMPT_PREFIX :: "loader_class \<Rightarrow> string" where
  "PROMPT_PREFIX c =
     (case c of
        RottenTomatoesDataLoader \<Rightarrow>
          ''Please read the following pairs of movie reviews and sentiment:\<newline>''
      | GigawordDataLoader \<Rightarrow> ''Please read the following pairs of texts and summaries:\<newline>''
      | DailymailDataLoader \<Rightarrow> ''Please read the following pairs of texts and summaries:\<newline>''
      | WikicatDataLoader \<Rightarrow> ''Please read the following pairs of texts and summaries:\<newline>''
      | TweetQADataLoader \<Rightarrow>
          ''Please read the following triplet of contexts, questions and answers and summaries:\<newline>'')"

text \<open>The instruction that \<open>_eval_prompt\<close> puts in front of the input.\<close>

definition instruction :: "loader_class \<Rightarrow> string" where
  "instruction c =
     (case c of
        RottenTomatoesDataLoader \<Rightarrow>
          ''Please perform a Sentiment Classification task. '' @
          ''Given the following movie review, assign a sentiment label from ['negative', 'positive']. '' @
          ''Return only the sentiment label without any other text.\<newline>''
      | GigawordDataLoader \<Rightarrow> ''Please summarize the following article.\<newline>''
      | DailymailDataLoader \<Rightarrow> ''Please summarize the following article.\<newline>''
      | WikicatDataLoader \<Rightarrow> ''Please summarize the following article.\<newline>''
      | TweetQADataLoader \<Rightarrow> ''Read the given tweet and answer the corresponding question.\<newline>'')"

text \<open>
  The variable \<open>command\<close> of \<open>incontext_prompt_iterative\<close>. In
  \<open>RottenTomatoesDataLoader\<close> the assignment ends with the first literal: the two
  literals on the lines below it are statements of their own, since no bracket joins
  the three lines.
\<close>

definition command :: "loader_class \<Rightarrow> string" where
  "command c =
     (case c of
        RottenTomatoesDataLoader \<Rightarrow> ''Please perform a Sentiment Classification task. ''
      | GigawordDataLoader \<Rightarrow> ''Please summarize the following article.\<newline>''
      | DailymailDataLoader \<Rightarrow> ''Please summarize the following article.\<newline>''
      | WikicatDataLoader \<Rightarrow> ''Please summarize the following article.\<newline>''
      | TweetQADataLoader \<Rightarrow> ''Read the given tweet and answer the corresponding question.\<newline>'')"

text \<open>The separator at which \<open>incontext_prompt_iterative\<close> splits a fragment.\<close>

definition separator :: "loader_class \<Rightarrow> string" where
  "separator c =
     (case c of
        RottenTomatoesDataLoader \<Rightarrow> ''\<newline>sentiment: ''
      | GigawordDataLoader \<Rightarrow> ''\<newline>summary: ''
      | DailymailDataLoader \<Rightarrow> ''\<newline>summary: ''
      | WikicatDataLoader \<Rightarrow> ''\<newline>summary: ''
      | TweetQADataLoader \<Rightarrow> ''\<newline>answer: '')"

text \<open>The column \<open>load_test_reference\<close> returns.\<close>

definition reference_column :: "loader_class \<Rightarrow> string" where
  "reference_column c =
     (case c of
        RottenTomatoesDataLoader \<Rightarrow> ''sentiment''
      | GigawordDataLoader \<Rightarrow> ''summary''
      | DailymailDataLoader \<Rightarrow> ''highlights''
      | WikicatDataLoader \<Rightarrow> ''summary''
      | TweetQADataLoader \<Rightarrow> ''summary'')"

definition label_to_sentiment :: "pydict \<Rightarrow> error + pydict" where
  "label_to_sentiment example =
     ebind (getitem example ''label'') (\<lambda>l.
     Inr [(''sentiment'', VStr (if l = VInt 1 then ''positive'' else ''negative''))])"

text \<open>
  \<open>prompt_text c\<close> is the string expression of \<open>_prompt\<close> in class \<open>c\<close>, evaluated
  from left to right, and \<open>eval_prompt_text c\<close> that of \<open>_eval_prompt\<close>; \<open>prompt_of\<close>
  and \<open>eval_prompt_of\<close> are the two static functions, which return the string in a
  one-field dict.
\<close>

definition prompt_text :: "loader_class \<Rightarrow> pydict \<Rightarrow> error + string" where
  "prompt_text c example =
     (case c of
        RottenTomatoesDataLoader \<Rightarrow>
          ebind (getitem example ''text'') (\<lambda>t.
          ebind (str_add ''review: '' t) (\<lambda>s.
          ebind (getitem example ''sentiment'') (\<lambda>y.
          str_add (s @ ''\<newline>sentiment: '') y)))
      | GigawordDataLoader \<Rightarrow>
          ebind (getitem example ''document'') (\<lambda>t.
          ebind (str_add ''article: '' t) (\<lambda>s.
          ebind (getitem example ''summary'') (\<lambda>y.
          str_add (s @ ''\<newline>summary: '') y)))
      | DailymailDataLoader \<Rightarrow>
          ebind (getitem example ''article'') (\<lambda>t.
          ebind (str_add ''article: '' t) (\<lambda>s.
          ebind (getitem example ''highlights'') (\<lambda>y.
          str_add (s @ ''\<newline>summary: '') y)))
      | WikicatDataLoader \<Rightarrow>
          ebind (getitem example ''paragraphs'') (\<lambda>ps.
          ebind (str_join '' '' ps) (\<lambda>t.
          ebind (getitem example ''summary'') (\<lambda>sm.
          ebind (subscript_key sm ''text'') (\<lambda>st.
          ebind (str_join '' '' st) (\<lambda>y.
          Inr (''article: '' @ t @ ''\<newline>summary: '' @ y))))))
      | TweetQADataLoader \<Rightarrow>
          ebind (getitem example ''Tweet'') (\<lambda>t.
          ebind (str_add ''tweet: '' t) (\<lambda>s.
          ebind (getitem example ''Question'') (\<lambda>q.
          ebind (str_add (s @ ''\<newline>question: '') q) (\<lambda>s'.
          ebind (getitem example ''Answer'') (\<lambda>a.
          ebind (subscript_0 a) (\<lambda>a0.
          str_add (s' @ ''\<newline>answer: '') a0)))))))"

definition eval_prompt_text :: "loader_class \<Rightarrow> pydict \<Rightarrow> error + string" where
  "eval_prompt_text c example =
     (case c of
        RottenTomatoesDataLoader \<Rightarrow>
          ebind (getitem example ''text'') (\<lambda>t. str_add (instruction c) t)
      | GigawordDataLoader \<Rightarrow>
          ebind (getitem example ''document'') (\<lambda>t. str_add (instruction c) t)
      | DailymailDataLoader \<Rightarrow>
          ebind (getitem example ''article'') (\<lambda>t. str_add (instruction c) t)
      | WikicatDataLoader \<Rightarrow>
          ebind (getitem example ''paragraphs'') (\<lambda>ps.
          ebind (str_join '' '' ps) (\<lambda>t. Inr (instruction c @ t)))
      | TweetQADataLoader \<Rightarrow>
          ebind (getitem example ''Tweet'') (\<lambda>t.
          ebind (str_add (instruction c @ ''tweet: '') t) (\<lambda>s.
          ebind (getitem example ''Question'') (\<lambda>q.
          str_add (s @ ''\<newline>question: '') q))))"

definition prompt_of :: "loader_class \<Rightarrow> pydict \<Rightarrow> error + pydict" where
  "prompt_of c example = ebind (prompt_text c example) (\<lambda>p. Inr [(''prompt'', VStr p)])"

definition eval_prompt_of :: "loader_class \<Rightarrow> pydict \<Rightarrow> error + pydict" where
  "eval_prompt_of c example =
     ebind (eval_prompt_text c example) (\<lambda>p. Inr [(''eval_prompt'', VStr p)])"

text \<open>
  \<open>__init__\<close>. \<open>RottenTomatoesDataLoader\<close> first maps the labels of all three splits to
  sentiments and stores the result in \<open>_dataset\<close>; the other four classes run the same
  statements on the dataset as loaded.
\<close>

definition RottenTomatoesDataLoader_init :: "provider \<Rightarrow> error + DataLoader" where
  "RottenTomatoesDataLoader_init load_dataset =
     ebind (dataset load_dataset (DataLoader_new RottenTomatoesDataLoader ''rotten_tomatoes''))
       (\<lambda>(dd, self).
     ebind (DatasetDict_map label_to_sentiment dd) (\<lambda>dd'.
     ebind (dataset load_dataset (self\<lparr>dataset_cache := Some dd'\<rparr>)) (\<lambda>(dd, self).
     ebind (Dataset_map (prompt_of RottenTomatoesDataLoader) (dd_train dd)) (\<lambda>tr.
     ebind (dataset load_dataset (self\<lparr>train := tr\<rparr>)) (\<lambda>(dd, self).
     ebind (Dataset_map (eval_prompt_of RottenTomatoesDataLoader) (dd_test dd)) (\<lambda>te.
     Inr (self\<lparr>test := te\<rparr>)))))))"

definition plain_init :: "loader_class \<Rightarrow> string \<Rightarrow> provider \<Rightarrow> error + DataLoader" where
  "plain_init c name load_dataset =
     ebind (dataset load_dataset (DataLoader_new c name)) (\<lambda>(dd, self).
     ebind (Dataset_map (prompt_of c) (dd_train dd)) (\<lambda>tr.
     ebind (dataset load_dataset (self\<lparr>train := tr\<rparr>)) (\<lambda>(dd, self).
     ebind (Dataset_map (eval_prompt_of c) (dd_test dd)) (\<lambda>te.
     Inr (self\<lparr>test := te\<rparr>)))))"

definition GigawordDataLoader_init :: "provider \<Rightarrow> error + DataLoader" where
  "GigawordDataLoader_init = plain_init GigawordDataLoader ''gigaword''"

definition DailymailDataLoader_init :: "provider \<Rightarrow> error + DataLoader" where
  "DailymailDataLoader_init = plain_init DailymailDataLoader ''cnn_dailymail''"

definition WikicatDataLoader_init :: "provider \<Rightarrow> error + DataLoader" where
  "WikicatDataLoader_init = plain_init WikicatDataLoader ''GEM/wiki_cat_sum''"

definition TweetQADataLoader_init :: "provider \<Rightarrow> error + DataLoader" where
  "TweetQADataLoader_init = plain_init TweetQADataLoader ''tweet_qa''"

text \<open>
  The methods. \<open>num_examples\<close> is a count, a natural number; the seed is an integer.
  A turn of the iterative prompt is a dict with the keys \<open>role\<close> and \<open>content\<close>.
\<close>

record turn =
  role :: string
  content :: val

definition load_test_reference :: "DataLoader \<Rightarrow> error + val list" where
  "load_test_reference self = column (test self) (reference_column (cls self))"

definition eval_prompt :: "DataLoader \<Rightarrow> error + val list" where
  "eval_prompt self = column (test self) ''eval_prompt''"

definition incontext_prompt ::
  "(int \<Rightarrow> nat \<Rightarrow> nat \<Rightarrow> nat list) \<Rightarrow> DataLoader \<Rightarrow> nat \<Rightarrow> int \<Rightarrow> error + string" where
  "incontext_prompt gen self num_examples seed =
     (if num_examples = 0 then Inr []
      else
        ebind (choice gen seed (length (train self)) num_examples) (\<lambda>idxs.
        ebind (select (train self) idxs) (\<lambda>sel.
        ebind (column sel ''prompt'') (\<lambda>examples.
        ebind (mapM as_str examples) (\<lambda>strs.
        Inr (PROMPT_PREFIX (cls self) @ join ''\<newline>'' strs @ ''\<newline>''))))))"

text \<open>The body of the loop over the examples: the two turns it appends.\<close>

definition example_turns :: "loader_class \<Rightarrow> val \<Rightarrow> error + turn list" where
  "example_turns c ex =
     (case ex of
        VStr s \<Rightarrow>
          ebind (split s (separator c)) (\<lambda>parts.
          ebind (index parts 0) (\<lambda>p0.
          ebind (index parts 1) (\<lambda>p1.
          Inr [\<lparr>role = ''user'', content = VStr (command c @ p0)\<rparr>,
               \<lparr>role = ''assistant'', content = VStr p1\<rparr>])))
      | _ \<Rightarrow> Inl (AttributeError ''split''))"

definition incontext_prompt_iterative ::
  "(int \<Rightarrow> nat \<Rightarrow> nat \<Rightarrow> nat list) \<Rightarrow> DataLoader \<Rightarrow> nat \<Rightarrow> int \<Rightarrow> error + turn list" where
  "incontext_prompt_iterative gen self num_examples seed =
     (if num_examples = 0 then Inr []
      else
        ebind (choice gen seed (length (train self)) num_examples) (\<lambda>idxs.
        ebind (select (train self) idxs) (\<lambda>sel.
        ebind (column sel ''prompt'') (\<lambda>examples.
        ebind (mapM (example_turns (cls self)) examples) (\<lambda>out.
        Inr (concat out))))))"

section \<open>PromptLoader\<close>

text \<open>
  An attribute that \<open>__init__\<close> did not assign is \<open>None\<close> here, and reading it raises
  \<open>AttributeError\<close>. \<open>__init__\<close> has no \<open>else\<close> branch: a name that no branch tests
  assigns nothing.
\<close>

record PromptLoader =
  eval_set :: "DataLoader option"
  incontext_set :: "DataLoader option"

definition new_obj :: "error + DataLoader \<Rightarrow> error + DataLoader option" where
  "new_obj r = ebind r (\<lambda>d. Inr (Some d))"

definition PromptLoader_init :: "provider \<Rightarrow> string \<Rightarrow> string \<Rightarrow> error + PromptLoader" where
  "PromptLoader_init load_dataset incontext eval =
     ebind
       (if eval = ''gigaword'' then new_obj (GigawordDataLoader_init load_dataset)
        else if eval = ''dailymail'' then new_obj (DailymailDataLoader_init load_dataset)
        else if eval = ''rotten_tomatoes'' then new_obj (RottenTomatoesDataLoader_init load_dataset)
        else Inr None) (\<lambda>es.
     ebind
       (if incontext = eval then
          (case es of None \<Rightarrow> Inl (AttributeError ''eval_set'') | Some e \<Rightarrow> Inr (Some e))
        else if incontext = ''gigaword'' then new_obj (GigawordDataLoader_init load_dataset)
        else if incontext = ''dailymail'' then new_obj (DailymailDataLoader_init load_dataset)
        else if incontext = ''wikicat'' then new_obj (WikicatDataLoader_init load_dataset)
        else if incontext = ''rotten_tomatoes'' then
          new_obj (RottenTomatoesDataLoader_init load_dataset)
        else if incontext = ''tweetqa'' then new_obj (TweetQADataLoader_init load_dataset)
        else Inr None) (\<lambda>ics.
     Inr \<lparr>eval_set = es, incontext_set = ics\<rparr>))"

text \<open>
  \<open>load_prompt\<close>: the generator \<open>eval_prompt()\<close> is made first, then the comprehension
  runs its body for every evaluation prompt with the position as the seed.
\<close>

definition load_prompt ::
  "(int \<Rightarrow> nat \<Rightarrow> nat \<Rightarrow> nat list) \<Rightarrow> PromptLoader \<Rightarrow> nat \<Rightarrow> error + string list" where
  "load_prompt gen self num_examples =
     (case eval_set self of
        None \<Rightarrow> Inl (AttributeError ''eval_set'')
      | Some es \<Rightarrow>
          ebind (eval_prompt es) (\<lambda>eps.
          mapM (\<lambda>(idx, eval_prompt).
                 case incontext_set self of
                   None \<Rightarrow> Inl (AttributeError ''incontext_set'')
                 | Some ics \<Rightarrow>
                     ebind (incontext_prompt gen ics num_examples (int idx)) (\<lambda>p.
                     str_add p eval_prompt))
            (enumerate 0 eps)))"

definition load_prompt_iterative ::
  "(int \<Rightarrow> nat \<Rightarrow> nat \<Rightarrow> nat list) \<Rightarrow> PromptLoader \<Rightarrow> nat \<Rightarrow> error + turn list list" where
  "load_prompt_iterative gen self num_examples =
     (case eval_set self of
        None \<Rightarrow> Inl (AttributeError ''eval_set'')
      | Some es \<Rightarrow>
          ebind (eval_prompt es) (\<lambda>eps.
          mapM (\<lambda>(idx, eval_prompt).
                 case incontext_set self of
                   None \<Rightarrow> Inl (AttributeError ''incontext_set'')
                 | Some ics \<Rightarrow>
                     ebind (incontext_prompt_iterative gen ics num_examples (int idx)) (\<lambda>ts.
                     Inr (ts @ [\<lparr>role = ''user'', content = eval_prompt\<rparr>])))
            (enumerate 0 eps)))"

definition load_testdata :: "PromptLoader \<Rightarrow> error + val list" where
  "load_testdata self =
     (case eval_set self of
        None \<Rightarrow> Inl (AttributeError ''eval_set'')
      | Some es \<Rightarrow> load_test_reference es)"

section \<open>Record transforms\<close>

text \<open>
  \<open>change_key\<close> and \<open>content_map\<close> receive a reference to a dict, so the dicts live in
  a heap: \<open>objs\<close> maps an address to the dict stored there and \<open>free\<close> is the next
  unused address. A function returns its result (an address, or the exception) and the
  heap it leaves. \<open>copy\<close> allocates; an item assignment writes at the address given.
\<close>

record heap =
  objs :: "nat \<Rightarrow> pydict"
  free :: nat

definition copy :: "heap \<Rightarrow> nat \<Rightarrow> nat \<times> heap" where
  "copy h a = (free h, h\<lparr>objs := (objs h)(free h := objs h a), free := Suc (free h)\<rparr>)"

definition setitem :: "heap \<Rightarrow> nat \<Rightarrow> string \<Rightarrow> val \<Rightarrow> heap" where
  "setitem h a k v = h\<lparr>objs := (objs h)(a := AList.update k v (objs h a))\<rparr>"

definition pop :: "heap \<Rightarrow> nat \<Rightarrow> string \<Rightarrow> (error + val) \<times> heap" where
  "pop h a k =
     (case map_of (objs h a) k of
        None \<Rightarrow> (Inl (KeyError (VStr k)), h)
      | Some v \<Rightarrow> (Inr v, h\<lparr>objs := (objs h)(a := AList.delete k (objs h a))\<rparr>))"

definition change_key :: "heap \<Rightarrow> nat \<Rightarrow> string \<Rightarrow> string \<Rightarrow> (error + nat) \<times> heap" where
  "change_key h ex old_key new_key =
     (let (ex', h1) = copy h ex;
          (r, h2) = pop h1 ex' old_key
      in case r of
           Inl e \<Rightarrow> (Inl e, h2)
         | Inr v \<Rightarrow> (Inr ex', setitem h2 ex' new_key v))"

text \<open>
  The mapping argument of \<open>content_map\<close> is a dict with values as keys (\<open>{0: "negative",
  1: "positive"}\<close>); a list or a dict is not hashable and cannot be looked up.
\<close>

definition mapping_getitem :: "(val \<times> val) list \<Rightarrow> val \<Rightarrow> error + val" where
  "mapping_getitem m k =
     (case k of
        VList xs \<Rightarrow> Inl TypeError
      | VDict d \<Rightarrow> Inl TypeError
      | _ \<Rightarrow> (case map_of m k of None \<Rightarrow> Inl (KeyError k) | Some v \<Rightarrow> Inr v))"

definition content_map ::
  "heap \<Rightarrow> nat \<Rightarrow> string \<Rightarrow> (val \<times> val) list \<Rightarrow> (error + nat) \<times> heap" where
  "content_map h ex target_key mapping =
     (case ebind (getitem (objs h ex) target_key) (mapping_getitem mapping) of
        Inl e \<Rightarrow> (Inl e, h)
      | Inr v \<Rightarrow> (Inr ex, setitem h ex target_key v))"

section \<open>Client calls and the state after construction\<close>

text \<open>
  A client constructs a \<open>PromptLoader\<close> for an in-context and an evaluation dataset
  name and calls one of its three methods. The functions below are these two steps in
  sequence.
\<close>

definition load_prompts ::
  "(int \<Rightarrow> nat \<Rightarrow> nat \<Rightarrow> nat list) \<Rightarrow> provider \<Rightarrow> string \<Rightarrow> string \<Rightarrow> nat \<Rightarrow> error + string list" where
  "load_prompts gen load_dataset incontext eval k =
     ebind (PromptLoader_init load_dataset incontext eval) (\<lambda>self. load_prompt gen self k)"

definition load_prompts_turns ::
  "(int \<Rightarrow> nat \<Rightarrow> nat \<Rightarrow> nat list) \<Rightarrow> provider \<Rightarrow> string \<Rightarrow> string \<Rightarrow> nat \<Rightarrow> error + turn list list" where
  "load_prompts_turns gen load_dataset incontext eval k =
     ebind (PromptLoader_init load_dataset incontext eval) (\<lambda>self. load_prompt_iterative gen self k)"

definition load_references :: "provider \<Rightarrow> string \<Rightarrow> string \<Rightarrow> error + val list" where
  "load_references load_dataset incontext eval =
     ebind (PromptLoader_init load_dataset incontext eval) load_testdata"

text \<open>
  What \<open>__init__\<close> of every adapter leaves: the dataset is cached in \<open>_dataset\<close>,
  \<open>train\<close> is its training split mapped through \<open>_prompt\<close> and \<open>test\<close> its test
  split mapped through \<open>_eval_prompt\<close>.
\<close>

definition built :: "DataLoader \<Rightarrow> bool" where
  "built self =
     (case dataset_cache self of
        None \<Rightarrow> False
      | Some dd \<Rightarrow>
          Dataset_map (prompt_of (cls self)) (dd_train dd) = Inr (train self) \<and>
          Dataset_map (eval_prompt_of (cls self)) (dd_test dd) = Inr (test self))"

text \<open>The fields of a record that \<open>_prompt\<close> reads as strings and copies into the fragment.\<close>

definition text_fields :: "loader_class \<Rightarrow> string list" where
  "text_fields c =
     (case c of
        RottenTomatoesDataLoader \<Rightarrow> [''text'', ''sentiment'']
      | GigawordDataLoader \<Rightarrow> [''document'', ''summary'']
      | DailymailDataLoader \<Rightarrow> [''article'', ''highlights'']
      | WikicatDataLoader \<Rightarrow> []
      | TweetQADataLoader \<Rightarrow> [''Tweet'', ''Question''])"


section \<open>Concrete inputs\<close>

text \<open>A generator that takes the first \<open>k\<close> indices, whatever the seed.\<close>

definition gen_first :: "int \<Rightarrow> nat \<Rightarrow> nat \<Rightarrow> nat list" where
  "gen_first seed n k = [0..<k]"

text \<open>
  The scenario of the specification: one training record \<open>{"text": "A", "label": 1}\<close>
  and one evaluation record \<open>{"text": "B", "label": 0}\<close>; \<open>scenario_adapter\<close> is the
  adapter that \<open>RottenTomatoesDataLoader\<close> builds from it.
\<close>

definition scenario_dataset :: DatasetDict where
  "scenario_dataset =
     \<lparr>dd_train = [[(''text'', VStr ''A''), (''label'', VInt 1)]],
      dd_validation = [],
      dd_test = [[(''text'', VStr ''B''), (''label'', VInt 0)]]\<rparr>"

definition scenario_provider :: provider where
  "scenario_provider name config = Inr scenario_dataset"

definition scenario_cache :: DatasetDict where
  "scenario_cache =
     \<lparr>dd_train = [[(''text'', VStr ''A''), (''label'', VInt 1), (''sentiment'', VStr ''positive'')]],
      dd_validation = [],
      dd_test = [[(''text'', VStr ''B''), (''label'', VInt 0), (''sentiment'', VStr ''negative'')]]\<rparr>"

definition scenario_adapter :: DataLoader where
  "scenario_adapter =
     \<lparr>cls = RottenTomatoesDataLoader, dataset_name = ''rotten_tomatoes'',
      dataset_cache = Some scenario_cache,
      train = [[(''text'', VStr ''A''), (''label'', VInt 1), (''sentiment'', VStr ''positive''),
                (''prompt'', VStr ''review: A\<newline>sentiment: positive'')]],
      test = [[(''text'', VStr ''B''), (''label'', VInt 0), (''sentiment'', VStr ''negative''),
               (''eval_prompt'', VStr (instruction RottenTomatoesDataLoader @ ''B''))]]\<rparr>"

definition scenario_loader :: PromptLoader where
  "scenario_loader = \<lparr>eval_set = Some scenario_adapter, incontext_set = Some scenario_adapter\<rparr>"



definition nested_record :: pydict where
  "nested_record =
     [(''text'', VStr ''x\<newline>sentiment: y''), (''label'', VInt 1), (''sentiment'', VStr ''positive'')]"

definition nested_fragment :: string where
  "nested_fragment = ''review: x\<newline>sentiment: y\<newline>sentiment: positive''"

text \<open>A heap with the record \<open>{"Sentiment": 0}\<close> at address 0, and the label mapping.\<close>

definition label_heap :: heap where
  "label_heap = \<lparr>objs = (\<lambda>a. [])(0 := [(''Sentiment'', VInt 0)]), free = 1\<rparr>"

definition label_mapping :: "(val \<times> val) list" where
  "label_mapping = [(VInt 0, VStr ''negative''), (VInt 1, VStr ''positive'')]"

section \<open>Facts about the exception monad, dicts, join and split\<close>


lemma ebind_Inr [simp]: "ebind (Inr x) f = f x"
  by (simp add: ebind_def)

lemma ebind_Inl [simp]: "ebind (Inl e) f = Inl e"
  by (simp add: ebind_def)

lemma ebind_eq_Inr: "ebind m f = Inr y \<longleftrightarrow> (\<exists>x. m = Inr x \<and> f x = Inr y)"
  by (cases m) simp_all

lemma mapM_eq_Inr:
  "mapM f xs = Inr ys \<longleftrightarrow> length ys = length xs \<and> (\<forall>i<length xs. f (xs ! i) = Inr (ys ! i))"
proof (induction xs arbitrary: ys)
  case Nil
  then show ?case by auto
next
  case (Cons x xs)
  show ?case
  proof (cases ys)
    case Nil
    then show ?thesis by (auto simp: ebind_eq_Inr)
  next
    case (Cons y ys')
    have "mapM f (x # xs) = Inr (y # ys') \<longleftrightarrow> f x = Inr y \<and> mapM f xs = Inr ys'"
      by (auto simp: ebind_eq_Inr)
    also have "\<dots> \<longleftrightarrow> f x = Inr y \<and> length ys' = length xs \<and> (\<forall>i<length xs. f (xs ! i) = Inr (ys' ! i))"
      using Cons.IH [of ys'] by simp
    also have "\<dots> \<longleftrightarrow> length (y # ys') = length (x # xs) \<and>
        (\<forall>i<length (x # xs). f ((x # xs) ! i) = Inr ((y # ys') ! i))"
      by (auto simp: nth_Cons split: nat.splits)
    finally show ?thesis using Cons by simp
  qed
qed

lemma mapM_enumerate_eq_Inr:
  "mapM (\<lambda>(i, x). f i x) (enumerate n xs) = Inr ys \<longleftrightarrow>
     length ys = length xs \<and> (\<forall>i<length xs. f (n + i) (xs ! i) = Inr (ys ! i))"
  by (simp add: mapM_eq_Inr nth_enumerate_eq)

lemma getitem_update_same: "getitem (AList.update k v d) k = Inr v"
  by (simp add: getitem_def update_conv')


lemma dict_merge_single: "dict_merge d [(k, v)] = AList.update k v d"
  by (simp add: dict_merge_def)

lemma Dataset_map_field:
  assumes "Dataset_map (\<lambda>ex. ebind (t ex) (\<lambda>p. Inr [(k, VStr p)])) ds = Inr rs"
  shows "\<exists>ps. mapM t ds = Inr ps \<and> length rs = length ds \<and>
           (\<forall>j<length ds. rs ! j = AList.update k (VStr (ps ! j)) (ds ! j))"
proof -
  from assms have len: "length rs = length ds"
    and each: "\<And>j. j < length ds \<Longrightarrow>
        \<exists>p. t (ds ! j) = Inr p \<and> rs ! j = AList.update k (VStr p) (ds ! j)"
    by (auto simp: Dataset_map_def mapM_eq_Inr ebind_eq_Inr dict_merge_single)
  define ps where "ps = map (\<lambda>ex. projr (t ex)) ds"
  have "mapM t ds = Inr ps"
    using each by (fastforce simp: mapM_eq_Inr ps_def)
  moreover have "\<forall>j<length ds. rs ! j = AList.update k (VStr (ps ! j)) (ds ! j)"
    using each by (fastforce simp: ps_def)
  ultimately show ?thesis using len by blast
qed

lemma join_Cons: "ys \<noteq> [] \<Longrightarrow> join sep (x # ys) = x @ sep @ join sep ys"
  by (cases ys) simp_all

lemma split_from_nonempty: "split_from sep cur s \<noteq> []"
  by (induction sep cur s rule: split_from.induct) auto

lemma join_split_from: "join sep (split_from sep cur s) = cur @ s"
proof (induction sep cur s rule: split_from.induct)
  case (1 sep cur)
  then show ?case by simp
next
  case (2 sep cur c cs)
  show ?case
  proof (cases "sep \<noteq> [] \<and> prefix sep (c # cs)")
    case True
    then have "c # cs = sep @ drop (length sep) (c # cs)"
      by (metis append_eq_conv_conj prefixE)
    then show ?thesis
      using True 2(1) by (simp add: join_Cons split_from_nonempty)
  next
    case False
    then show ?thesis using 2(2) by auto
  qed
qed

lemma split_from_length_ge2:
  "sep \<noteq> [] \<Longrightarrow> s = a @ sep @ b \<Longrightarrow> 2 \<le> length (split_from sep cur s)"
proof (induction sep cur s arbitrary: a rule: split_from.induct)
  case (1 sep cur)
  then show ?case by simp
next
  case (2 sep cur c cs)
  show ?case
  proof (cases "prefix sep (c # cs)")
    case True
    have "split_from sep [] (drop (length sep) (c # cs)) \<noteq> []"
      by (rule split_from_nonempty)
    then have "1 \<le> length (split_from sep [] (drop (length sep) (c # cs)))"
      by (simp add: Suc_leI)
    then show ?thesis using True 2(3) by simp
  next
    case False
    then have "a \<noteq> []" using 2(4) by auto
    then obtain a' where a: "a = c # a'" using 2(4) by (cases a) auto
    then have "cs = a' @ sep @ b" using 2(4) by simp
    then show ?thesis using False 2(2) [of a'] 2(3) by simp
  qed
qed

lemma split_from_length_ge3:
  "sep \<noteq> [] \<Longrightarrow> s = a @ sep @ b @ sep @ d \<Longrightarrow> 3 \<le> length (split_from sep cur s)"
proof (induction sep cur s arbitrary: a rule: split_from.induct)
  case (1 sep cur)
  then show ?case by simp
next
  case (2 sep cur c cs)
  show ?case
  proof (cases "prefix sep (c # cs)")
    case True
    have "\<exists>u. drop (length sep) (c # cs) = u @ sep @ d"
    proof (cases a)
      case Nil
      then show ?thesis using 2(4) by auto
    next
      case (Cons x a')
      then have "length sep \<le> length (a @ sep @ b)" by simp
      then have "drop (length sep) ((a @ sep @ b) @ sep @ d) = drop (length sep) (a @ sep @ b) @ sep @ d"
        by (simp only: drop_append diff_is_0_eq' drop_0)
      then show ?thesis using 2(4) by auto
    qed
    then obtain u where "drop (length sep) (c # cs) = u @ sep @ d" by blast
    then have "2 \<le> length (split_from sep [] (drop (length sep) (c # cs)))"
      using split_from_length_ge2 [OF 2(3)] by blast
    then show ?thesis using True 2(3) by simp
  next
    case False
    then have "a \<noteq> []" using 2(4) by auto
    then obtain a' where a: "a = c # a'" using 2(4) by (cases a) auto
    then have "cs = a' @ sep @ b @ sep @ d" using 2(4) by simp
    then show ?thesis using False 2(2) [of a'] 2(3) by simp
  qed
qed

lemma split_from_sep_free:
  assumes "sep \<noteq> []" and "\<forall>k<length cur. \<not> prefix sep (drop k (cur @ s))"
  shows "\<forall>p \<in> set (split_from sep cur s). \<not> sublist sep p"
  using assms
proof (induction sep cur s rule: split_from.induct)
  case (1 sep cur)
  show ?case
  proof (clarsimp)
    assume "sublist sep cur"
    then obtain ps ss where c: "cur = ps @ sep @ ss" by (auto simp: sublist_def)
    then have "length ps < length cur" using 1(1) by (cases sep) auto
    moreover have "prefix sep (drop (length ps) (cur @ []))" using c by simp
    ultimately show False using 1(2) by blast
  qed
next
  case (2 sep cur c cs)
  show ?case
  proof (cases "prefix sep (c # cs)")
    case True
    have "\<not> sublist sep cur"
    proof
      assume "sublist sep cur"
      then obtain ps ss where c: "cur = ps @ sep @ ss" by (auto simp: sublist_def)
      then have "length ps < length cur" using 2(3) by (cases sep) auto
      moreover have "prefix sep (drop (length ps) (cur @ c # cs))" using c by simp
      ultimately show False using 2(4) by blast
    qed
    moreover have "\<forall>p \<in> set (split_from sep [] (drop (length sep) (c # cs))). \<not> sublist sep p"
      using 2(1) True 2(3) by simp
    ultimately show ?thesis using True 2(3) by simp
  next
    case False
    have "\<forall>k<length (cur @ [c]). \<not> prefix sep (drop k ((cur @ [c]) @ cs))"
    proof (intro allI impI)
      fix k assume "k < length (cur @ [c])"
      then consider "k < length cur" | "k = length cur" by fastforce
      then show "\<not> prefix sep (drop k ((cur @ [c]) @ cs))"
      proof cases
        case 1
        then show ?thesis using 2(4) by simp
      next
        case 2
        then show ?thesis using False by simp
      qed
    qed
    then show ?thesis using False 2(2) 2(3) by simp
  qed
qed

section \<open>What construction establishes\<close>

lemma valid_gen_first: "valid_gen gen_first"
  by (auto simp: valid_gen_def gen_first_def list_all_iff)

lemma scenario_RT_init:
  "RottenTomatoesDataLoader_init scenario_provider = Inr scenario_adapter"
  by (simp add: RottenTomatoesDataLoader_init_def dataset_def DataLoader_new_def
      scenario_provider_def scenario_dataset_def DatasetDict_map_def Dataset_map_def
      label_to_sentiment_def getitem_def dict_merge_def prompt_of_def prompt_text_def
      eval_prompt_of_def eval_prompt_text_def str_add_def scenario_adapter_def scenario_cache_def)

lemma scenario_init:
  "PromptLoader_init scenario_provider ''rotten_tomatoes'' ''rotten_tomatoes'' = Inr scenario_loader"
  by (simp add: PromptLoader_init_def new_obj_def scenario_RT_init scenario_loader_def)

lemma plain_init_built:
  assumes "plain_init c name ld = Inr dl"
  shows "built dl \<and> cls dl = c"
  using assms
  by (auto simp: plain_init_def ebind_eq_Inr built_def dataset_def DataLoader_new_def
      split: if_splits)

lemma RottenTomatoes_init_built:
  assumes "RottenTomatoesDataLoader_init ld = Inr dl"
  shows "built dl \<and> cls dl = RottenTomatoesDataLoader"
  using assms
  by (auto simp: RottenTomatoesDataLoader_init_def ebind_eq_Inr built_def dataset_def
      DataLoader_new_def split: if_splits)

lemma new_obj_Inr: "new_obj r = Inr x \<longleftrightarrow> (\<exists>d. r = Inr d \<and> x = Some d)"
  by (auto simp: new_obj_def ebind_eq_Inr)

lemma PromptLoader_init_built:
  assumes "PromptLoader_init ld inc ev = Inr pl"
  shows "(\<forall>d. eval_set pl = Some d \<longrightarrow> built d) \<and> (\<forall>d. incontext_set pl = Some d \<longrightarrow> built d)"
proof -
  from assms obtain es ics where
    es: "(if ev = ''gigaword'' then new_obj (GigawordDataLoader_init ld)
        else if ev = ''dailymail'' then new_obj (DailymailDataLoader_init ld)
        else if ev = ''rotten_tomatoes'' then new_obj (RottenTomatoesDataLoader_init ld)
        else Inr None) = Inr es"
    and ics: "(if inc = ev then
          (case es of None \<Rightarrow> Inl (AttributeError ''eval_set'') | Some e \<Rightarrow> Inr (Some e))
        else if inc = ''gigaword'' then new_obj (GigawordDataLoader_init ld)
        else if inc = ''dailymail'' then new_obj (DailymailDataLoader_init ld)
        else if inc = ''wikicat'' then new_obj (WikicatDataLoader_init ld)
        else if inc = ''rotten_tomatoes'' then new_obj (RottenTomatoesDataLoader_init ld)
        else if inc = ''tweetqa'' then new_obj (TweetQADataLoader_init ld)
        else Inr None) = Inr ics"
    and pl: "pl = \<lparr>eval_set = es, incontext_set = ics\<rparr>"
    unfolding PromptLoader_init_def ebind_eq_Inr by auto
  have e: "\<forall>d. es = Some d \<longrightarrow> built d"
    using es
    by (auto simp: new_obj_Inr GigawordDataLoader_init_def DailymailDataLoader_init_def
        split: if_splits dest: plain_init_built RottenTomatoes_init_built)
  have i: "\<forall>d. ics = Some d \<longrightarrow> built d"
    using ics e
    by (auto simp: new_obj_Inr GigawordDataLoader_init_def DailymailDataLoader_init_def
        WikicatDataLoader_init_def TweetQADataLoader_init_def
        split: if_splits option.splits dest: plain_init_built RottenTomatoes_init_built)
  show ?thesis using e i pl by simp
qed

section \<open>Sampling and rendering on a constructed adapter\<close>

lemma prompt_of_eq: "prompt_of c = (\<lambda>ex. ebind (prompt_text c ex) (\<lambda>p. Inr [(''prompt'', VStr p)]))"
  by (rule ext) (simp add: prompt_of_def)

lemma eval_prompt_of_eq:
  "eval_prompt_of c = (\<lambda>ex. ebind (eval_prompt_text c ex) (\<lambda>p. Inr [(''eval_prompt'', VStr p)]))"
  by (rule ext) (simp add: eval_prompt_of_def)

lemma built_rows:
  assumes "built dl" and "dataset_cache dl = Some dd"
  shows "\<exists>frags qs.
     mapM (prompt_text (cls dl)) (dd_train dd) = Inr frags \<and>
     mapM (eval_prompt_text (cls dl)) (dd_test dd) = Inr qs \<and>
     length (train dl) = length (dd_train dd) \<and> length (test dl) = length (dd_test dd) \<and>
     (\<forall>j<length (dd_train dd). train dl ! j = AList.update ''prompt'' (VStr (frags ! j)) (dd_train dd ! j)) \<and>
     (\<forall>i<length (dd_test dd). test dl ! i = AList.update ''eval_prompt'' (VStr (qs ! i)) (dd_test dd ! i))"
proof -
  from assms have tr: "Dataset_map (prompt_of (cls dl)) (dd_train dd) = Inr (train dl)"
    and te: "Dataset_map (eval_prompt_of (cls dl)) (dd_test dd) = Inr (test dl)"
    by (simp_all add: built_def)
  from Dataset_map_field [OF tr [unfolded prompt_of_eq]]
  obtain frags where "mapM (prompt_text (cls dl)) (dd_train dd) = Inr frags"
    "length (train dl) = length (dd_train dd)"
    "\<forall>j<length (dd_train dd). train dl ! j = AList.update ''prompt'' (VStr (frags ! j)) (dd_train dd ! j)"
    by blast
  moreover from Dataset_map_field [OF te [unfolded eval_prompt_of_eq]]
  obtain qs where "mapM (eval_prompt_text (cls dl)) (dd_test dd) = Inr qs"
    "length (test dl) = length (dd_test dd)"
    "\<forall>i<length (dd_test dd). test dl ! i = AList.update ''eval_prompt'' (VStr (qs ! i)) (dd_test dd ! i)"
    by blast
  ultimately show ?thesis by blast
qed

lemma mapM_length: "mapM f xs = Inr ys \<Longrightarrow> length ys = length xs"
  by (simp add: mapM_eq_Inr)

lemma mapM_select:
  "mapM f xs = Inr ys \<Longrightarrow> list_all (\<lambda>i. i < length xs) idxs \<Longrightarrow>
     mapM f (map ((!) xs) idxs) = Inr (map ((!) ys) idxs)"
  by (simp add: mapM_eq_Inr list_all_length)

lemma valid_gen_choice:
  "valid_gen gen \<Longrightarrow> k \<le> n \<Longrightarrow>
     choice gen seed n k = Inr (gen seed n k) \<and> length (gen seed n k) = k \<and>
     distinct (gen seed n k) \<and> list_all (\<lambda>i. i < n) (gen seed n k)"
  by (simp add: valid_gen_def choice_def)

lemma incontext_prompt_sampled:
  assumes "valid_gen gen" and "0 < k" and "k \<le> length (train ics)"
    and "\<forall>j<length (train ics). getitem (train ics ! j) ''prompt'' = Inr (VStr (frags ! j))"
  shows "incontext_prompt gen ics k seed =
     Inr (PROMPT_PREFIX (cls ics) @
          join ''\<newline>'' (map ((!) frags) (gen seed (length (train ics)) k)) @ ''\<newline>'')"
proof -
  let ?idxs = "gen seed (length (train ics)) k"
  from valid_gen_choice [OF assms(1,3)]
  have ch: "choice gen seed (length (train ics)) k = Inr ?idxs"
    and rng: "list_all (\<lambda>i. i < length (train ics)) ?idxs" by simp_all
  have sel: "select (train ics) ?idxs = Inr (map ((!) (train ics)) ?idxs)"
    using rng by (simp add: select_def)
  have col: "column (map ((!) (train ics)) ?idxs) ''prompt'' = Inr (map (\<lambda>j. VStr (frags ! j)) ?idxs)"
    using rng assms(4) by (simp add: column_def mapM_eq_Inr list_all_length)
  have strs: "mapM as_str (map (\<lambda>j. VStr (frags ! j)) ?idxs) = Inr (map ((!) frags) ?idxs)"
    by (simp add: mapM_eq_Inr as_str_def)
  show ?thesis using assms(2) by (simp add: incontext_prompt_def ch sel col strs)
qed

lemma separator_nonempty: "separator c \<noteq> []"
  by (cases c) (simp_all add: separator_def)

lemma str_add_Inr: "str_add s v = Inr r \<longleftrightarrow> (\<exists>t. v = VStr t \<and> r = s @ t)"
  by (cases v) (auto simp: str_add_def)

lemma fragment_shape:
  assumes "prompt_text c ex = Inr f"
  shows "\<exists>inp tgt. f = inp @ separator c @ tgt"
proof (cases c)
  case RottenTomatoesDataLoader
  with assms obtain t y where "f = (''review: '' @ t) @ separator c @ y"
    by (auto simp: prompt_text_def separator_def ebind_eq_Inr str_add_Inr)
  then show ?thesis by blast
next
  case GigawordDataLoader
  with assms obtain t y where "f = (''article: '' @ t) @ separator c @ y"
    by (auto simp: prompt_text_def separator_def ebind_eq_Inr str_add_Inr)
  then show ?thesis by blast
next
  case DailymailDataLoader
  with assms obtain t y where "f = (''article: '' @ t) @ separator c @ y"
    by (auto simp: prompt_text_def separator_def ebind_eq_Inr str_add_Inr)
  then show ?thesis by blast
next
  case WikicatDataLoader
  with assms obtain t y where "f = (''article: '' @ t) @ separator c @ y"
    by (auto simp: prompt_text_def separator_def ebind_eq_Inr str_add_Inr)
  then show ?thesis by blast
next
  case TweetQADataLoader
  with assms obtain t q y where "f = (''tweet: '' @ t @ ''\<newline>question: '' @ q) @ separator c @ y"
    by (auto simp: prompt_text_def separator_def ebind_eq_Inr str_add_Inr)
  then show ?thesis by blast
qed

lemma example_turns_parts:
  assumes "2 \<le> length (split_from (separator c) [] f)"
  shows "example_turns c (VStr f) =
     Inr [\<lparr>role = ''user'', content = VStr (command c @ split_from (separator c) [] f ! 0)\<rparr>,
          \<lparr>role = ''assistant'', content = VStr (split_from (separator c) [] f ! 1)\<rparr>]"
  using assms by (simp add: example_turns_def split_def separator_nonempty index_def split_from_nonempty)


lemma eval_prompt_built:
  assumes "built es" and "dataset_cache es = Some dde"
  shows "\<exists>qs. mapM (eval_prompt_text (cls es)) (dd_test dde) = Inr qs \<and>
               eval_prompt es = Inr (map VStr qs)"
proof -
  from built_rows [OF assms] obtain qs where
    qs: "mapM (eval_prompt_text (cls es)) (dd_test dde) = Inr qs"
    and len: "length (test es) = length (dd_test dde)"
    and rows: "\<forall>i<length (dd_test dde). test es ! i = AList.update ''eval_prompt'' (VStr (qs ! i)) (dd_test dde ! i)"
    by blast
  have "length qs = length (dd_test dde)" using qs by (rule mapM_length)
  then have "eval_prompt es = Inr (map VStr qs)"
    using len rows by (simp add: eval_prompt_def column_def mapM_eq_Inr getitem_update_same)
  with qs show ?thesis by blast
qed

section \<open>Zero-shot prompts\<close>



section \<open>Requests larger than the training pool\<close>

lemma incontext_prompt_oversized:
  "length (train ics) < k \<Longrightarrow> incontext_prompt gen ics k seed = Inl ValueError"
  by (simp add: incontext_prompt_def choice_def)

lemma incontext_prompt_iterative_oversized:
  "length (train ics) < k \<Longrightarrow> incontext_prompt_iterative gen ics k seed = Inl ValueError"
  by (simp add: incontext_prompt_iterative_def choice_def)

text \<open>
  C7: when the requested number of in-context examples exceeds the size of the training
  pool, the prompt builder fails with \<open>ValueError\<close> for every seed, in both the flat
  and the iterative form. \<open>load_prompt\<close> and \<open>load_prompt_iterative\<close> then never
  return a list with a prompt in it: with at least one evaluation prompt they fail with
  \<open>ValueError\<close> at the first position.
\<close>

theorem oversized_request_fails:
  assumes "length (train ics) < k" and "incontext_set pl = Some ics"
  shows "incontext_prompt gen ics k seed = Inl ValueError \<and>
    incontext_prompt_iterative gen ics k seed = Inl ValueError \<and>
    (\<forall>ps. load_prompt gen pl k = Inr ps \<longrightarrow> ps = []) \<and>
    (\<forall>ts. load_prompt_iterative gen pl k = Inr ts \<longrightarrow> ts = []) \<and>
    (\<forall>es eps. eval_set pl = Some es \<and> eval_prompt es = Inr eps \<and> eps \<noteq> [] \<longrightarrow>
       load_prompt gen pl k = Inl ValueError \<and> load_prompt_iterative gen pl k = Inl ValueError)"
proof -
  have a: "\<And>s. incontext_prompt gen ics k s = Inl ValueError"
    using assms(1) by (rule incontext_prompt_oversized)
  have b: "\<And>s. incontext_prompt_iterative gen ics k s = Inl ValueError"
    using assms(1) by (rule incontext_prompt_iterative_oversized)
  have c: "load_prompt gen pl k = Inl ValueError \<and> load_prompt_iterative gen pl k = Inl ValueError"
    if "eval_set pl = Some es" "eval_prompt es = Inr eps" "eps \<noteq> []" for es eps
  proof -
    from that(3) obtain e eps' where "eps = e # eps'" by (cases eps) auto
    then show ?thesis
      by (simp add: load_prompt_def load_prompt_iterative_def that(1,2) assms(2) a b enumerate_simps)
  qed
  have d: "ps = []" if "load_prompt gen pl k = Inr ps" for ps
  proof (cases "eval_set pl")
    case None
    with that show ?thesis by (simp add: load_prompt_def)
  next
    case (Some es)
    show ?thesis
    proof (cases "eval_prompt es")
      case (Inl e)
      with that Some show ?thesis by (simp add: load_prompt_def)
    next
      case (Inr eps)
      show ?thesis
      proof (cases "eps = []")
        case True
        with that Some Inr show ?thesis by (simp add: load_prompt_def)
      next
        case False
        with c [OF Some Inr] that show ?thesis by simp
      qed
    qed
  qed
  have e: "ts = []" if "load_prompt_iterative gen pl k = Inr ts" for ts
  proof (cases "eval_set pl")
    case None
    with that show ?thesis by (simp add: load_prompt_iterative_def)
  next
    case (Some es)
    show ?thesis
    proof (cases "eval_prompt es")
      case (Inl e)
      with that Some show ?thesis by (simp add: load_prompt_iterative_def)
    next
      case (Inr eps)
      show ?thesis
      proof (cases "eps = []")
        case True
        with that Some Inr show ?thesis by (simp add: load_prompt_iterative_def)
      next
        case False
        with c [OF Some Inr] that show ?thesis by simp
      qed
    qed
  qed
  show ?thesis using a b c d e by blast
qed

theorem oversized_request_fails_witness:
  "incontext_prompt gen_first scenario_adapter 2 5 = Inl ValueError \<and>
   incontext_prompt_iterative gen_first scenario_adapter 2 5 = Inl ValueError \<and>
   load_prompt gen_first scenario_loader 2 = Inl ValueError \<and>
   load_prompt_iterative gen_first scenario_loader 2 = Inl ValueError"
proof -
  have l: "length (train scenario_adapter) < 2" by (simp add: scenario_adapter_def)
  have i: "incontext_set scenario_loader = Some scenario_adapter"
    and e: "eval_set scenario_loader = Some scenario_adapter"
    by (simp_all add: scenario_loader_def)
  have p: "eval_prompt scenario_adapter = Inr [VStr (instruction RottenTomatoesDataLoader @ ''B'')]"
    by (simp add: eval_prompt_def column_def scenario_adapter_def getitem_def)
  from oversized_request_fails [OF l i, of gen_first 5] e p show ?thesis by simp
qed

section \<open>Record transforms and their argument\<close>

lemma change_key_frame:
  assumes "ex < free h"
  shows "objs (snd (change_key h ex old_key new_key)) ex = objs h ex"
  using assms
  by (auto simp: change_key_def copy_def pop_def setitem_def Let_def split: option.splits)

lemma change_key_fresh:
  "fst (change_key h ex old_key new_key) = Inr a \<Longrightarrow> a = free h"
  by (auto simp: change_key_def copy_def pop_def setitem_def Let_def split: option.splits)

text \<open>
  C9: every record transform returns a new record and leaves its argument as it was.
  \<open>change_key\<close> does (it works on a copy, see \<open>change_key_frame\<close>), \<open>content_map\<close>
  does not: on the record \<open>{"Sentiment": 0}\<close> at address 0 and the label mapping it
  returns address 0 itself, and the record stored there has changed from
  \<open>{"Sentiment": 0}\<close> to \<open>{"Sentiment": "negative"}\<close>.
\<close>

theorem content_map_mutates_argument:
  "objs label_heap 0 = [(''Sentiment'', VInt 0)] \<and>
   fst (content_map label_heap 0 ''Sentiment'' label_mapping) = Inr 0 \<and>
   objs (snd (content_map label_heap 0 ''Sentiment'' label_mapping)) 0 =
     [(''Sentiment'', VStr ''negative'')]"
  by (simp add: content_map_def label_heap_def label_mapping_def getitem_def
      mapping_getitem_def setitem_def)

section \<open>The instruction of the iterative prompt\<close>

lemma scenario_turns:
  "load_prompt_iterative gen_first scenario_loader 1 =
     Inr [[\<lparr>role = ''user'',
            content = VStr ''Please perform a Sentiment Classification task. review: A''\<rparr>,
           \<lparr>role = ''assistant'', content = VStr ''positive''\<rparr>,
           \<lparr>role = ''user'', content = VStr (instruction RottenTomatoesDataLoader @ ''B'')\<rparr>]]"
  by (simp add: load_prompt_iterative_def eval_prompt_def column_def scenario_adapter_def
      scenario_loader_def getitem_def incontext_prompt_iterative_def choice_def gen_first_def
      select_def example_turns_def split_def separator_def index_def command_def)

text \<open>
  C4: per sampled example the iterative prompt has a user turn with the dataset's
  instruction followed by the input part of the fragment. For \<open>RottenTomatoesDataLoader\<close>
  the user turn carries only the first sentence of the instruction: on the scenario of
  the specification with one example the turns are as below, and the first user turn is
  not the instruction followed by \<open>review: A\<close>.
\<close>

theorem rotten_tomatoes_turn_instruction:
  "load_prompts_turns gen_first scenario_provider ''rotten_tomatoes'' ''rotten_tomatoes'' 1 =
     Inr [[\<lparr>role = ''user'',
            content = VStr ''Please perform a Sentiment Classification task. review: A''\<rparr>,
           \<lparr>role = ''assistant'', content = VStr ''positive''\<rparr>,
           \<lparr>role = ''user'', content = VStr (instruction RottenTomatoesDataLoader @ ''B'')\<rparr>]] \<and>
   ''Please perform a Sentiment Classification task. review: A'' \<noteq>
     instruction RottenTomatoesDataLoader @ ''review: A''"
proof -
  have a: "load_prompts_turns gen_first scenario_provider ''rotten_tomatoes'' ''rotten_tomatoes'' 1 =
      load_prompt_iterative gen_first scenario_loader 1"
    by (simp only: load_prompts_turns_def scenario_init ebind_Inr)
  have b: "''Please perform a Sentiment Classification task. review: A'' \<noteq>
      instruction RottenTomatoesDataLoader @ ''review: A''"
    by (simp add: instruction_def)
  show ?thesis unfolding a scenario_turns using b by simp
qed

section \<open>Dataset names that no branch tests\<close>

lemma load_prompt_no_eval_set:
  "eval_set pl = None \<Longrightarrow>
     load_prompt gen pl k = Inl (AttributeError ''eval_set'') \<and>
     load_prompt_iterative gen pl k = Inl (AttributeError ''eval_set'') \<and>
     load_testdata pl = Inl (AttributeError ''eval_set'')"
  by (simp add: load_prompt_def load_prompt_iterative_def load_testdata_def)

text \<open>
  C8, as the claim states it: an unsupported dataset name makes the construction fail
  with an error naming it. With the evaluation name \<open>imdb\<close> the construction completes,
  \<open>eval_set\<close> is not assigned, and the failure comes later, from \<open>load_prompt\<close>, as an
  \<open>AttributeError\<close>.
\<close>

theorem unsupported_name_counterexample:
  "PromptLoader_init scenario_provider ''rotten_tomatoes'' ''imdb'' =
     Inr \<lparr>eval_set = None, incontext_set = Some scenario_adapter\<rparr> \<and>
   load_prompts gen_first scenario_provider ''rotten_tomatoes'' ''imdb'' 1 =
     Inl (AttributeError ''eval_set'')"
  by (simp add: load_prompts_def PromptLoader_init_def new_obj_def scenario_RT_init
      load_prompt_def)

text \<open>
  C8, amended: \<open>__init__\<close> raises no error of its own for an unsupported name. An
  unsupported evaluation name leaves \<open>eval_set\<close> unassigned: if the in-context name is
  that same name, reading \<open>eval_set\<close> fails with an \<open>AttributeError\<close> that does not
  name the key; otherwise, whenever the construction completes, every later call of
  \<open>load_prompt\<close>, \<open>load_prompt_iterative\<close> and \<open>load_testdata\<close> fails with
  \<open>AttributeError\<close>. An unsupported in-context name that differs from the evaluation
  name leaves \<open>incontext_set\<close> unassigned, and with both names unsupported the
  construction completes with neither attribute assigned.
\<close>

theorem unsupported_name_construction:
  "(ev \<noteq> ''gigaword'' \<and> ev \<noteq> ''dailymail'' \<and> ev \<noteq> ''rotten_tomatoes'' \<longrightarrow>
      (inc = ev \<longrightarrow> PromptLoader_init ld inc ev = Inl (AttributeError ''eval_set'')) \<and>
      (\<forall>pl. PromptLoader_init ld inc ev = Inr pl \<longrightarrow>
         eval_set pl = None \<and>
         load_prompt gen pl k = Inl (AttributeError ''eval_set'') \<and>
         load_prompt_iterative gen pl k = Inl (AttributeError ''eval_set'') \<and>
         load_testdata pl = Inl (AttributeError ''eval_set''))) \<and>
   (inc \<noteq> ev \<and> inc \<noteq> ''gigaword'' \<and> inc \<noteq> ''dailymail'' \<and> inc \<noteq> ''wikicat'' \<and>
    inc \<noteq> ''rotten_tomatoes'' \<and> inc \<noteq> ''tweetqa'' \<longrightarrow>
      (\<forall>pl. PromptLoader_init ld inc ev = Inr pl \<longrightarrow> incontext_set pl = None) \<and>
      (ev \<noteq> ''gigaword'' \<and> ev \<noteq> ''dailymail'' \<and> ev \<noteq> ''rotten_tomatoes'' \<longrightarrow>
         PromptLoader_init ld inc ev = Inr \<lparr>eval_set = None, incontext_set = None\<rparr>))"
proof (intro conjI impI allI)
  assume "ev \<noteq> ''gigaword'' \<and> ev \<noteq> ''dailymail'' \<and> ev \<noteq> ''rotten_tomatoes''" and "inc = ev"
  then show "PromptLoader_init ld inc ev = Inl (AttributeError ''eval_set'')"
    by (simp add: PromptLoader_init_def)
next
  fix pl
  assume "ev \<noteq> ''gigaword'' \<and> ev \<noteq> ''dailymail'' \<and> ev \<noteq> ''rotten_tomatoes''"
    and "PromptLoader_init ld inc ev = Inr pl"
  then have e: "eval_set pl = None"
    by (auto simp: PromptLoader_init_def ebind_eq_Inr)
  then show "eval_set pl = None" .
  from e show "load_prompt gen pl k = Inl (AttributeError ''eval_set'')"
    by (simp add: load_prompt_no_eval_set)
  from e show "load_prompt_iterative gen pl k = Inl (AttributeError ''eval_set'')"
    by (simp add: load_prompt_no_eval_set)
  from e show "load_testdata pl = Inl (AttributeError ''eval_set'')"
    by (simp add: load_prompt_no_eval_set)
next
  fix pl
  assume "inc \<noteq> ev \<and> inc \<noteq> ''gigaword'' \<and> inc \<noteq> ''dailymail'' \<and> inc \<noteq> ''wikicat'' \<and>
    inc \<noteq> ''rotten_tomatoes'' \<and> inc \<noteq> ''tweetqa''"
    and "PromptLoader_init ld inc ev = Inr pl"
  then show "incontext_set pl = None"
    by (auto simp: PromptLoader_init_def ebind_eq_Inr)
next
  assume "inc \<noteq> ev \<and> inc \<noteq> ''gigaword'' \<and> inc \<noteq> ''dailymail'' \<and> inc \<noteq> ''wikicat'' \<and>
    inc \<noteq> ''rotten_tomatoes'' \<and> inc \<noteq> ''tweetqa''"
    and "ev \<noteq> ''gigaword'' \<and> ev \<noteq> ''dailymail'' \<and> ev \<noteq> ''rotten_tomatoes''"
  then show "PromptLoader_init ld inc ev = Inr \<lparr>eval_set = None, incontext_set = None\<rparr>"
    by (simp add: PromptLoader_init_def)
qed


theorem unsupported_name_construction_witness:
  "PromptLoader_init scenario_provider ''imdb'' ''imdb'' = Inl (AttributeError ''eval_set'') \<and>
   load_testdata \<lparr>eval_set = None, incontext_set = Some scenario_adapter\<rparr> =
     Inl (AttributeError ''eval_set'') \<and>
   PromptLoader_init scenario_provider ''sst2'' ''imdb'' =
     Inr \<lparr>eval_set = None, incontext_set = None\<rparr>"
proof -
  have i: "PromptLoader_init scenario_provider ''rotten_tomatoes'' ''imdb'' =
     Inr \<lparr>eval_set = None, incontext_set = Some scenario_adapter\<rparr>"
    by (simp add: PromptLoader_init_def new_obj_def scenario_RT_init)
  have 1: "PromptLoader_init scenario_provider ''imdb'' ''imdb'' = Inl (AttributeError ''eval_set'')"
    using unsupported_name_construction [of "''imdb''" "''imdb''" scenario_provider gen_first 1]
    by simp
  have 2: "load_testdata \<lparr>eval_set = None, incontext_set = Some scenario_adapter\<rparr> =
     Inl (AttributeError ''eval_set'')"
    using unsupported_name_construction
      [of "''imdb''" "''rotten_tomatoes''" scenario_provider gen_first 1]
    by (simp add: i)
  have 3: "PromptLoader_init scenario_provider ''sst2'' ''imdb'' =
     Inr \<lparr>eval_set = None, incontext_set = None\<rparr>"
    using unsupported_name_construction [of "''imdb''" "''sst2''" scenario_provider gen_first 1]
    by simp
  show ?thesis using 1 2 3 by (intro conjI)
qed

section \<open>The prompts of a constructed loader\<close>

lemma built_prompt_column:
  assumes "built dl" and "dataset_cache dl = Some dd"
  shows "\<exists>frags. mapM (prompt_text (cls dl)) (dd_train dd) = Inr frags \<and>
     length frags = length (train dl) \<and> length (train dl) = length (dd_train dd) \<and>
     (\<forall>j<length (train dl). getitem (train dl ! j) ''prompt'' = Inr (VStr (frags ! j)))"
proof -
  from built_rows [OF assms] obtain frags where
    f: "mapM (prompt_text (cls dl)) (dd_train dd) = Inr frags"
    and len: "length (train dl) = length (dd_train dd)"
    and rows: "\<forall>j<length (dd_train dd). train dl ! j = AList.update ''prompt'' (VStr (frags ! j)) (dd_train dd ! j)"
    by blast
  have "length frags = length (train dl)" using f len by (simp add: mapM_eq_Inr)
  moreover have "\<forall>j<length (train dl). getitem (train dl ! j) ''prompt'' = Inr (VStr (frags ! j))"
    using len rows by (simp add: getitem_update_same)
  ultimately show ?thesis using f len by blast
qed


lemma load_prompt_positions:
  assumes "eval_set pl = Some es" and "incontext_set pl = Some ics"
    and "eval_prompt es = Inr (map VStr qs)"
    and "\<forall>i<length qs. incontext_prompt gen ics k (int i) = Inr (pre i)"
  shows "load_prompt gen pl k = Inr (map (\<lambda>i. pre i @ qs ! i) [0..<length qs])"
  using assms(4)
  by (simp add: load_prompt_def assms(1,2,3) mapM_enumerate_eq_Inr str_add_def)


lemma flat_prompt_general:
  assumes init: "PromptLoader_init ld inc ev = Inr pl"
    and ics: "incontext_set pl = Some ics" and es: "eval_set pl = Some es"
    and ddi: "dataset_cache ics = Some ddi" and dde: "dataset_cache es = Some dde"
    and gen: "valid_gen gen" and k: "0 < k" "k \<le> length (dd_train ddi)"
    and i: "i < length (dd_test dde)"
  shows "\<exists>ps frags q. load_prompt gen pl k = Inr ps \<and> length ps = length (dd_test dde) \<and>
     mapM (prompt_text (cls ics))
       (map ((!) (dd_train ddi)) (gen (int i) (length (dd_train ddi)) k)) = Inr frags \<and>
     length frags = k \<and>
     eval_prompt_text (cls es) (dd_test dde ! i) = Inr q \<and>
     ps ! i = PROMPT_PREFIX (cls ics) @ join ''\<newline>'' frags @ ''\<newline>'' @ q"
proof -
  have bi: "built ics" and be: "built es"
    using PromptLoader_init_built [OF init] ics es by simp_all
  from built_prompt_column [OF bi ddi] obtain all_frags where
    af: "mapM (prompt_text (cls ics)) (dd_train ddi) = Inr all_frags"
    and len: "length (train ics) = length (dd_train ddi)"
    and col: "\<forall>j<length (train ics). getitem (train ics ! j) ''prompt'' = Inr (VStr (all_frags ! j))"
    by blast
  from eval_prompt_built [OF be dde] obtain qs where
    qs: "mapM (eval_prompt_text (cls es)) (dd_test dde) = Inr qs"
    and ep: "eval_prompt es = Inr (map VStr qs)" by blast
  have lq: "length qs = length (dd_test dde)" using qs by (rule mapM_length)
  let ?n = "length (dd_train ddi)"
  let ?pre = "\<lambda>i. PROMPT_PREFIX (cls ics) @
      join ''\<newline>'' (map ((!) all_frags) (gen (int i) ?n k)) @ ''\<newline>''"
  have pre: "\<forall>i<length qs. incontext_prompt gen ics k (int i) = Inr (?pre i)"
    using incontext_prompt_sampled [OF gen k(1) _ col] k(2) len by simp
  have lp: "load_prompt gen pl k = Inr (map (\<lambda>i. ?pre i @ qs ! i) [0..<length qs])"
    by (rule load_prompt_positions [OF es ics ep pre])
  have rng: "list_all (\<lambda>j. j < ?n) (gen (int i) ?n k)" and lk: "length (gen (int i) ?n k) = k"
    using valid_gen_choice [OF gen k(2)] by simp_all
  have fr: "mapM (prompt_text (cls ics)) (map ((!) (dd_train ddi)) (gen (int i) ?n k)) =
      Inr (map ((!) all_frags) (gen (int i) ?n k))"
    by (rule mapM_select [OF af rng])
  have q: "eval_prompt_text (cls es) (dd_test dde ! i) = Inr (qs ! i)"
    using qs i by (simp add: mapM_eq_Inr)
  have "map (\<lambda>i. ?pre i @ qs ! i) [0..<length qs] ! i = ?pre i @ qs ! i"
    using i lq by simp
  then show ?thesis using lp fr q lk lq by auto
qed

lemma valid_gen_one:
  assumes "valid_gen gen"
  shows "gen seed (Suc 0) (Suc 0) = [0]"
proof -
  have "length (gen seed (Suc 0) (Suc 0)) = Suc 0"
    and "list_all (\<lambda>i. i < Suc 0) (gen seed (Suc 0) (Suc 0))"
    using valid_gen_choice [OF assms, of "Suc 0" "Suc 0" seed] by simp_all
  then show ?thesis by (cases "gen seed (Suc 0) (Suc 0)") auto
qed

lemma flat_prompt_scenario:
  assumes "valid_gen gen"
  shows "load_prompts gen scenario_provider ''rotten_tomatoes'' ''rotten_tomatoes'' 1 =
     Inr [PROMPT_PREFIX RottenTomatoesDataLoader @ ''review: A\<newline>sentiment: positive'' @
          ''\<newline>'' @
          (''Please perform a Sentiment Classification task. '' @
           ''Given the following movie review, assign a sentiment label from ['negative', 'positive']. '' @
           ''Return only the sentiment label without any other text.'') @
          ''\<newline>'' @ ''B'']"
proof -
  have "load_prompt gen scenario_loader 1 =
     Inr [PROMPT_PREFIX RottenTomatoesDataLoader @ ''review: A\<newline>sentiment: positive'' @
          ''\<newline>'' @ instruction RottenTomatoesDataLoader @ ''B'']"
    by (simp add: load_prompt_def eval_prompt_def column_def scenario_adapter_def
        scenario_loader_def getitem_def incontext_prompt_def choice_def
        valid_gen_one [OF assms] select_def as_str_def str_add_def)
  then show ?thesis
    by (simp add: load_prompts_def scenario_init instruction_def)
qed

text \<open>
  C3: on a constructed loader with a valid sampler and \<open>0 < k \<le> |train|\<close>,
  \<open>load_prompt\<close> returns one prompt per evaluation record, and the prompt at position
  \<open>i\<close> is the header \<open>PROMPT_PREFIX\<close>, the fragments of the \<open>k\<close> training records
  sampled with seed \<open>i\<close> joined by a newline, a newline, and the evaluation query of
  record \<open>i\<close>. On the scenario (training pool \<open>{"text": "A", "label": 1}\<close>, evaluation
  pool \<open>{"text": "B", "label": 0}\<close>, \<open>k = 1\<close>) the prompt is the header, the fragment
  \<open>review: A\<newline>sentiment: positive\<close>, a newline, the instruction text, a newline and \<open>B\<close>.
\<close>

theorem flat_prompt_layout:
  "(\<forall>ld inc ev pl ics es ddi dde k i.
      PromptLoader_init ld inc ev = Inr pl \<and> incontext_set pl = Some ics \<and>
      eval_set pl = Some es \<and> dataset_cache ics = Some ddi \<and> dataset_cache es = Some dde \<and>
      valid_gen gen \<and> 0 < k \<and> k \<le> length (dd_train ddi) \<and> i < length (dd_test dde) \<longrightarrow>
      (\<exists>ps frags q. load_prompt gen pl k = Inr ps \<and> length ps = length (dd_test dde) \<and>
         mapM (prompt_text (cls ics))
           (map ((!) (dd_train ddi)) (gen (int i) (length (dd_train ddi)) k)) = Inr frags \<and>
         length frags = k \<and>
         eval_prompt_text (cls es) (dd_test dde ! i) = Inr q \<and>
         ps ! i = PROMPT_PREFIX (cls ics) @ join ''\<newline>'' frags @ ''\<newline>'' @ q)) \<and>
   (valid_gen gen \<longrightarrow>
      load_prompts gen scenario_provider ''rotten_tomatoes'' ''rotten_tomatoes'' 1 =
        Inr [PROMPT_PREFIX RottenTomatoesDataLoader @ ''review: A\<newline>sentiment: positive'' @
             ''\<newline>'' @
             (''Please perform a Sentiment Classification task. '' @
              ''Given the following movie review, assign a sentiment label from ['negative', 'positive']. '' @
              ''Return only the sentiment label without any other text.'') @
             ''\<newline>'' @ ''B''])"
proof (intro conjI allI impI)
  fix ld inc ev pl ics es ddi dde k i
  assume "PromptLoader_init ld inc ev = Inr pl \<and> incontext_set pl = Some ics \<and>
      eval_set pl = Some es \<and> dataset_cache ics = Some ddi \<and> dataset_cache es = Some dde \<and>
      valid_gen gen \<and> 0 < k \<and> k \<le> length (dd_train ddi) \<and> i < length (dd_test dde)"
  then show "\<exists>ps frags q. load_prompt gen pl k = Inr ps \<and> length ps = length (dd_test dde) \<and>
         mapM (prompt_text (cls ics))
           (map ((!) (dd_train ddi)) (gen (int i) (length (dd_train ddi)) k)) = Inr frags \<and>
         length frags = k \<and>
         eval_prompt_text (cls es) (dd_test dde ! i) = Inr q \<and>
         ps ! i = PROMPT_PREFIX (cls ics) @ join ''\<newline>'' frags @ ''\<newline>'' @ q"
    using flat_prompt_general [of ld inc ev pl ics es ddi dde gen k i] by blast
next
  assume "valid_gen gen"
  then show "load_prompts gen scenario_provider ''rotten_tomatoes'' ''rotten_tomatoes'' 1 =
        Inr [PROMPT_PREFIX RottenTomatoesDataLoader @ ''review: A\<newline>sentiment: positive'' @
             ''\<newline>'' @
             (''Please perform a Sentiment Classification task. '' @
              ''Given the following movie review, assign a sentiment label from ['negative', 'positive']. '' @
              ''Return only the sentiment label without any other text.'') @
             ''\<newline>'' @ ''B'']"
    by (rule flat_prompt_scenario)
qed

theorem flat_prompt_layout_witness:
  "(\<exists>ps frags q. load_prompt gen_first scenario_loader 1 = Inr ps \<and>
      length ps = length (dd_test scenario_cache) \<and>
      mapM (prompt_text (cls scenario_adapter))
        (map ((!) (dd_train scenario_cache))
          (gen_first (int 0) (length (dd_train scenario_cache)) 1)) = Inr frags \<and>
      length frags = 1 \<and>
      eval_prompt_text (cls scenario_adapter) (dd_test scenario_cache ! 0) = Inr q \<and>
      ps ! 0 = PROMPT_PREFIX (cls scenario_adapter) @ join ''\<newline>'' frags @ ''\<newline>'' @ q) \<and>
   load_prompts gen_first scenario_provider ''rotten_tomatoes'' ''rotten_tomatoes'' 1 =
     Inr [PROMPT_PREFIX RottenTomatoesDataLoader @ ''review: A\<newline>sentiment: positive'' @
          ''\<newline>'' @
          (''Please perform a Sentiment Classification task. '' @
           ''Given the following movie review, assign a sentiment label from ['negative', 'positive']. '' @
           ''Return only the sentiment label without any other text.'') @
          ''\<newline>'' @ ''B'']"
proof -
  have h: "PromptLoader_init scenario_provider ''rotten_tomatoes'' ''rotten_tomatoes'' =
        Inr scenario_loader \<and>
      incontext_set scenario_loader = Some scenario_adapter \<and>
      eval_set scenario_loader = Some scenario_adapter \<and>
      dataset_cache scenario_adapter = Some scenario_cache \<and>
      dataset_cache scenario_adapter = Some scenario_cache \<and>
      valid_gen gen_first \<and> 0 < (1::nat) \<and> 1 \<le> length (dd_train scenario_cache) \<and>
      0 < length (dd_test scenario_cache)"
    by (simp add: scenario_init valid_gen_first scenario_loader_def scenario_adapter_def
        scenario_cache_def)
  note t = flat_prompt_layout [of gen_first]
  show ?thesis
  proof (rule conjI)
    show "\<exists>ps frags q. load_prompt gen_first scenario_loader 1 = Inr ps \<and>
      length ps = length (dd_test scenario_cache) \<and>
      mapM (prompt_text (cls scenario_adapter))
        (map ((!) (dd_train scenario_cache))
          (gen_first (int 0) (length (dd_train scenario_cache)) 1)) = Inr frags \<and>
      length frags = 1 \<and>
      eval_prompt_text (cls scenario_adapter) (dd_test scenario_cache ! 0) = Inr q \<and>
      ps ! 0 = PROMPT_PREFIX (cls scenario_adapter) @ join ''\<newline>'' frags @ ''\<newline>'' @ q"
      by (rule t [THEN conjunct1, rule_format, OF h])
    show "load_prompts gen_first scenario_provider ''rotten_tomatoes'' ''rotten_tomatoes'' 1 =
     Inr [PROMPT_PREFIX RottenTomatoesDataLoader @ ''review: A\<newline>sentiment: positive'' @
          ''\<newline>'' @
          (''Please perform a Sentiment Classification task. '' @
           ''Given the following movie review, assign a sentiment label from ['negative', 'positive']. '' @
           ''Return only the sentiment label without any other text.'') @
          ''\<newline>'' @ ''B'']"
      by (rule t [THEN conjunct2, rule_format, OF valid_gen_first])
  qed
qed

section \<open>References and prompts, position by position\<close>








section \<open>Determinism\<close>



section \<open>Splitting a fragment at the separator\<close>






lemma split_parts:
  assumes "2 \<le> length (split_from sep [] f)"
  shows "\<exists>rest. split_from sep [] f = split_from sep [] f ! 0 # split_from sep [] f ! 1 # rest"
proof -
  from assms obtain a b rest where "split_from sep [] f = a # b # rest"
    by (cases "split_from sep [] f"; cases "tl (split_from sep [] f)") auto
  then show ?thesis by simp
qed

lemma fragment_fields:
  assumes "prompt_text c ex = Inr f" and "key \<in> set (text_fields c)"
    and "getitem ex key = Inr (VStr t)"
  shows "(\<exists>a b d. f = a @ t @ b @ separator c @ d) \<or> (\<exists>a b d. f = a @ separator c @ b @ t @ d)"
proof (cases c)
  case RottenTomatoesDataLoader
  with assms(1) obtain x y where
    g1: "getitem ex ''text'' = Inr (VStr x)" and g2: "getitem ex ''sentiment'' = Inr (VStr y)"
    and f: "f = ''review: '' @ x @ separator c @ y"
    by (auto simp: prompt_text_def separator_def ebind_eq_Inr str_add_Inr)
  have "key = ''text'' \<or> key = ''sentiment''"
    using assms(2) RottenTomatoesDataLoader by (simp add: text_fields_def)
  then show ?thesis
  proof
    assume "key = ''text''"
    then have "f = ''review: '' @ t @ [] @ separator c @ y" using assms(3) g1 f by simp
    then show ?thesis by (intro disjI1 exI)
  next
    assume "key = ''sentiment''"
    then have "f = (''review: '' @ x) @ separator c @ [] @ t @ []" using assms(3) g2 f by simp
    then show ?thesis by (intro disjI2 exI)
  qed
next
  case GigawordDataLoader
  with assms(1) obtain x y where
    g1: "getitem ex ''document'' = Inr (VStr x)" and g2: "getitem ex ''summary'' = Inr (VStr y)"
    and f: "f = ''article: '' @ x @ separator c @ y"
    by (auto simp: prompt_text_def separator_def ebind_eq_Inr str_add_Inr)
  have "key = ''document'' \<or> key = ''summary''"
    using assms(2) GigawordDataLoader by (simp add: text_fields_def)
  then show ?thesis
  proof
    assume "key = ''document''"
    then have "f = ''article: '' @ t @ [] @ separator c @ y" using assms(3) g1 f by simp
    then show ?thesis by (intro disjI1 exI)
  next
    assume "key = ''summary''"
    then have "f = (''article: '' @ x) @ separator c @ [] @ t @ []" using assms(3) g2 f by simp
    then show ?thesis by (intro disjI2 exI)
  qed
next
  case DailymailDataLoader
  with assms(1) obtain x y where
    g1: "getitem ex ''article'' = Inr (VStr x)" and g2: "getitem ex ''highlights'' = Inr (VStr y)"
    and f: "f = ''article: '' @ x @ separator c @ y"
    by (auto simp: prompt_text_def separator_def ebind_eq_Inr str_add_Inr)
  have "key = ''article'' \<or> key = ''highlights''"
    using assms(2) DailymailDataLoader by (simp add: text_fields_def)
  then show ?thesis
  proof
    assume "key = ''article''"
    then have "f = ''article: '' @ t @ [] @ separator c @ y" using assms(3) g1 f by simp
    then show ?thesis by (intro disjI1 exI)
  next
    assume "key = ''highlights''"
    then have "f = (''article: '' @ x) @ separator c @ [] @ t @ []" using assms(3) g2 f by simp
    then show ?thesis by (intro disjI2 exI)
  qed
next
  case WikicatDataLoader
  with assms(2) show ?thesis by (simp add: text_fields_def)
next
  case TweetQADataLoader
  with assms(1) obtain x q y where
    g1: "getitem ex ''Tweet'' = Inr (VStr x)" and g2: "getitem ex ''Question'' = Inr (VStr q)"
    and f: "f = ''tweet: '' @ x @ ''\<newline>question: '' @ q @ separator c @ y"
    by (auto simp: prompt_text_def separator_def ebind_eq_Inr str_add_Inr)
  have "key = ''Tweet'' \<or> key = ''Question''"
    using assms(2) TweetQADataLoader by (simp add: text_fields_def)
  then show ?thesis
  proof
    assume "key = ''Tweet''"
    then have "f = ''tweet: '' @ t @ (''\<newline>question: '' @ q) @ separator c @ y"
      using assms(3) g1 f by simp
    then show ?thesis by (intro disjI1 exI)
  next
    assume "key = ''Question''"
    then have "f = (''tweet: '' @ x @ ''\<newline>question: '') @ t @ [] @ separator c @ y"
      using assms(3) g2 f by simp
    then show ?thesis by (intro disjI1 exI)
  qed
qed

text \<open>
  C10: for every fragment \<open>f\<close> that \<open>_prompt\<close> of an adapter renders, the split at
  the separator has at least two parts, so that \<open>parts[0]\<close> and \<open>parts[1]\<close> exist and
  the loop body returns its two turns without an \<open>IndexError\<close>. The parts contain no
  separator and joined by it they give \<open>f\<close> back, so \<open>parts[1]\<close> is the text between
  the first occurrence of the separator and the next one. When the fragment has two
  occurrences of the separator, as it has when a text field of the record contains the
  separator, there is a third part: the assistant turn holds only \<open>parts[1]\<close>, and the
  text after the second occurrence is in neither turn.
\<close>

theorem fragment_split_turns:
  assumes "prompt_text c example = Inr f"
  shows "\<exists>p0 p1 rest.
     split f (separator c) = Inr (p0 # p1 # rest) \<and>
     example_turns c (VStr f) =
       Inr [\<lparr>role = ''user'', content = VStr (command c @ p0)\<rparr>,
            \<lparr>role = ''assistant'', content = VStr p1\<rparr>] \<and>
     f = join (separator c) (p0 # p1 # rest) \<and>
     \<not> sublist (separator c) p0 \<and> \<not> sublist (separator c) p1 \<and>
     ((\<exists>a b d. f = a @ separator c @ b @ separator c @ d) \<longrightarrow>
        rest \<noteq> [] \<and> f = p0 @ separator c @ p1 @ separator c @ join (separator c) rest) \<and>
     (\<forall>key t. key \<in> set (text_fields c) \<and> getitem example key = Inr (VStr t) \<and>
        sublist (separator c) t \<longrightarrow>
        rest \<noteq> [] \<and> f = p0 @ separator c @ p1 @ separator c @ join (separator c) rest)"
proof -
  let ?sep = "separator c"
  let ?parts = "split_from ?sep [] f"
  note ne = separator_nonempty [of c]
  from fragment_shape [OF assms] obtain inp tgt where "f = inp @ ?sep @ tgt" by blast
  then have two: "2 \<le> length ?parts"
    using split_from_length_ge2 [OF ne] by blast
  from split_parts [OF two] obtain rest where
    parts: "?parts = ?parts ! 0 # ?parts ! 1 # rest" by blast
  define p0 where "p0 = ?parts ! 0"
  define p1 where "p1 = ?parts ! 1"
  have parts': "?parts = p0 # p1 # rest" using parts by (simp add: p0_def p1_def)
  have s: "split f ?sep = Inr (p0 # p1 # rest)"
    using parts' ne by (simp add: split_def)
  have t: "example_turns c (VStr f) =
       Inr [\<lparr>role = ''user'', content = VStr (command c @ p0)\<rparr>,
            \<lparr>role = ''assistant'', content = VStr p1\<rparr>]"
    using example_turns_parts [OF two] by (simp add: p0_def p1_def)
  have j: "f = join ?sep (p0 # p1 # rest)"
    using join_split_from [of ?sep "[]" f] parts' by simp
  have "\<forall>p \<in> set ?parts. \<not> sublist ?sep p"
    by (rule split_from_sep_free [OF ne]) simp
  then have free: "\<not> sublist ?sep p0" "\<not> sublist ?sep p1"
    using parts' by simp_all
  have twice: "rest \<noteq> [] \<and> f = p0 @ ?sep @ p1 @ ?sep @ join ?sep rest"
    if "\<exists>a b d. f = a @ ?sep @ b @ ?sep @ d"
  proof -
    from that have "3 \<le> length ?parts"
      using split_from_length_ge3 [OF ne] by blast
    then have r: "rest \<noteq> []" using parts' by auto
    then have "join ?sep (p0 # p1 # rest) = p0 @ ?sep @ p1 @ ?sep @ join ?sep rest"
      by (simp add: join_Cons)
    with j r show ?thesis by simp
  qed
  have third: "rest \<noteq> [] \<and> f = p0 @ ?sep @ p1 @ ?sep @ join ?sep rest"
    if "key \<in> set (text_fields c)" "getitem example key = Inr (VStr t)" "sublist ?sep t"
    for key t
  proof -
    from that(3) obtain u v where tt: "t = u @ ?sep @ v" by (auto simp: sublist_def)
    from fragment_fields [OF assms that(1,2)]
    have "\<exists>a b d. f = a @ ?sep @ b @ ?sep @ d"
    proof
      assume "\<exists>a b d. f = a @ t @ b @ ?sep @ d"
      then obtain a b d where "f = a @ t @ b @ ?sep @ d" by blast
      then have "f = (a @ u) @ ?sep @ (v @ b) @ ?sep @ d" using tt by simp
      then show ?thesis by (intro exI)
    next
      assume "\<exists>a b d. f = a @ ?sep @ b @ t @ d"
      then obtain a b d where "f = a @ ?sep @ b @ t @ d" by blast
      then have "f = a @ ?sep @ (b @ u) @ ?sep @ (v @ d)" using tt by simp
      then show ?thesis by (intro exI)
    qed
    then show ?thesis by (rule twice)
  qed
  show ?thesis using s t j free twice third by blast
qed

lemma nested_split:
  "split nested_fragment (separator RottenTomatoesDataLoader) =
     Inr [''review: x'', ''y'', ''positive'']"
  by (simp add: split_def separator_def nested_fragment_def)

theorem fragment_split_turns_witness:
  "split nested_fragment (separator RottenTomatoesDataLoader) =
     Inr [''review: x'', ''y'', ''positive''] \<and>
   example_turns RottenTomatoesDataLoader (VStr nested_fragment) =
     Inr [\<lparr>role = ''user'',
           content = VStr (command RottenTomatoesDataLoader @ ''review: x'')\<rparr>,
          \<lparr>role = ''assistant'', content = VStr ''y''\<rparr>] \<and>
   nested_fragment =
     ''review: x'' @ separator RottenTomatoesDataLoader @ ''y'' @
     separator RottenTomatoesDataLoader @ join (separator RottenTomatoesDataLoader) [''positive'']"
proof -
  have p: "prompt_text RottenTomatoesDataLoader nested_record = Inr nested_fragment"
    by (simp add: prompt_text_def nested_record_def nested_fragment_def getitem_def str_add_def)
  have k: "''text'' \<in> set (text_fields RottenTomatoesDataLoader)"
    by (simp add: text_fields_def)
  have g: "getitem nested_record ''text'' = Inr (VStr ''x\<newline>sentiment: y'')"
    by (simp add: nested_record_def getitem_def)
  have "''x\<newline>sentiment: y'' = ''x'' @ separator RottenTomatoesDataLoader @ ''y''"
    by (simp add: separator_def)
  then have sb: "sublist (separator RottenTomatoesDataLoader) ''x\<newline>sentiment: y''"
    unfolding sublist_def by (intro exI)
  from fragment_split_turns [OF p] obtain p0 p1 rest where
    s: "split nested_fragment (separator RottenTomatoesDataLoader) = Inr (p0 # p1 # rest)"
    and t: "example_turns RottenTomatoesDataLoader (VStr nested_fragment) =
       Inr [\<lparr>role = ''user'', content = VStr (command RottenTomatoesDataLoader @ p0)\<rparr>,
            \<lparr>role = ''assistant'', content = VStr p1\<rparr>]"
    and a: "\<forall>key t. key \<in> set (text_fields RottenTomatoesDataLoader) \<and>
        getitem nested_record key = Inr (VStr t) \<and>
        sublist (separator RottenTomatoesDataLoader) t \<longrightarrow>
        rest \<noteq> [] \<and> nested_fragment = p0 @ separator RottenTomatoesDataLoader @ p1 @
          separator RottenTomatoesDataLoader @ join (separator RottenTomatoesDataLoader) rest"
    by blast
  from a k g sb have f: "nested_fragment = p0 @ separator RottenTomatoesDataLoader @ p1 @
          separator RottenTomatoesDataLoader @ join (separator RottenTomatoesDataLoader) rest"
    by blast
  from s have e: "p0 = ''review: x''" "p1 = ''y''" "rest = [''positive'']"
    unfolding nested_split by simp_all
  show ?thesis using s t f unfolding e by (intro conjI)
qed

section \<open>The two representations of one prompt\<close>












end
